theory Spec2Isabelle
  imports Complex_Main "HOL-Library.Char_ord" "HOL-Library.List_Lexorder" "HOL-Library.Multiset"
begin

section \<open>Paths\<close>

text \<open>
  A \<^verbatim>\<open>pathlib.Path\<close> is modelled by its list of components (\<^verbatim>\<open>Path.parts\<close>), a file
  name by its string of bytes. Paths are compared as \<^verbatim>\<open>pathlib\<close> compares them: the
  component lists lexicographically, each component as a string, character by character.
  That is the order the library theories \<^verbatim>\<open>List_Lexorder\<close> and \<^verbatim>\<open>Char_ord\<close> give to
  \<open>string list\<close>.
\<close>

type_synonym path = "string list"

definition name :: "path \<Rightarrow> string" where
  \<comment> \<open>\<^verbatim>\<open>Path.name\<close>: the final component, empty for a path without components.\<close>
  "name p = (if p = [] then [] else last p)"

definition parent :: "path \<Rightarrow> path" where
  "parent p = butlast p"

definition rfind :: "string \<Rightarrow> char \<Rightarrow> int" where
  \<comment> \<open>\<^verbatim>\<open>str.rfind\<close>: the highest index of the character, \<open>-1\<close> when it does not occur.\<close>
  "rfind s c =
     (if c \<in> set s
      then int (length s) - 1 - int (length (takeWhile (\<lambda>x. x \<noteq> c) (rev s)))
      else - 1)"

definition suffix :: "path \<Rightarrow> string" where
  \<comment> \<open>\<^verbatim>\<open>Path.suffix\<close>: \<^verbatim>\<open>i = name.rfind('.')\<close>; \<^verbatim>\<open>name[i:]\<close> if \<^verbatim>\<open>0 < i < len(name) - 1\<close>, else \<^verbatim>\<open>''\<close>.\<close>
  "suffix p =
     (let nm = name p; i = rfind nm (CHR ''.'')
      in if 0 < i \<and> i < int (length nm) - 1 then drop (nat i) nm else [])"

definition stem :: "path \<Rightarrow> string" where
  \<comment> \<open>\<^verbatim>\<open>Path.stem\<close>: \<^verbatim>\<open>name[:i]\<close> under the same test, else the whole name.\<close>
  "stem p =
     (let nm = name p; i = rfind nm (CHR ''.'')
      in if 0 < i \<and> i < int (length nm) - 1 then take (nat i) nm else nm)"

definition lower_char :: "char \<Rightarrow> char" where
  "lower_char c =
     (if CHR ''A'' \<le> c \<and> c \<le> CHR ''Z'' then char_of (of_char c + (32::nat)) else c)"

definition lower :: "string \<Rightarrow> string" where
  \<comment> \<open>\<^verbatim>\<open>str.lower\<close> on the ASCII letters. No other character lower-cases to a character
      of a supported extension, so membership in \<open>SUPPORTED_EXTS\<close> is decided the same.\<close>
  "lower s = map lower_char s"

definition SUPPORTED_EXTS :: "string set" where
  "SUPPORTED_EXTS = {''.jpg'', ''.jpeg'', ''.png'', ''.webp''}"

section \<open>The input directory\<close>

text \<open>
  A directory entry is a regular file or a directory with its own entries, in the order
  the operating system lists them. \<^verbatim>\<open>iterdir\<close> yields the direct children, \<^verbatim>\<open>rglob("*")\<close>
  every descendant, directories included; each path is paired with the entry it names so
  that \<^verbatim>\<open>is_file\<close> can be asked of it.
\<close>

datatype node = File string | Dir string "node list"

fun node_name :: "node \<Rightarrow> string" where
  "node_name (File n) = n"
| "node_name (Dir n cs) = n"

fun is_file :: "node \<Rightarrow> bool" where
  "is_file (File n) = True"
| "is_file (Dir n cs) = False"

definition iterdir :: "path \<Rightarrow> node list \<Rightarrow> (path \<times> node) list" where
  "iterdir p cs = map (\<lambda>c. (p @ [node_name c], c)) cs"

fun rglob :: "path \<Rightarrow> node list \<Rightarrow> (path \<times> node) list" where
  "rglob p [] = []"
| "rglob p (File n # cs) = (p @ [n], File n) # rglob p cs"
| "rglob p (Dir n ds # cs) = (p @ [n], Dir n ds) # rglob (p @ [n]) ds @ rglob p cs"

definition collect_files :: "bool \<Rightarrow> path \<Rightarrow> node list \<Rightarrow> path list" where
  \<comment> \<open>Lines 69 to 72. Only the non-recursive branch asks \<^verbatim>\<open>is_file\<close>.\<close>
  "collect_files recursive input_path cs =
     (if recursive
      then sort (map fst (filter (\<lambda>(p, c). lower (suffix p) \<in> SUPPORTED_EXTS)
                                 (rglob input_path cs)))
      else sort (map fst (filter (\<lambda>(p, c). is_file c \<and> lower (suffix p) \<in> SUPPORTED_EXTS)
                                 (iterdir input_path cs))))"

section \<open>Output path\<close>

datatype exn = ImportError | ValueError | OSError

definition with_name :: "path \<Rightarrow> string \<Rightarrow> exn + path" where
  \<comment> \<open>\<^verbatim>\<open>Path.with_name\<close>: raises \<^verbatim>\<open>ValueError\<close> for a path with an empty name and for a
      new name that is empty, is \<^verbatim>\<open>.\<close> or holds a separator.\<close>
  "with_name p new =
     (if name p = [] then Inl ValueError
      else if new = [] \<or> new = ''.'' \<or> CHR ''/'' \<in> set new then Inl ValueError
      else Inr (butlast p @ [new]))"

record datetime =
  year :: nat
  month :: nat
  day :: nat
  hour :: nat
  minute :: nat
  second :: nat

definition digit :: "nat \<Rightarrow> char" where
  "digit n = char_of (48 + n mod 10)"

definition zpad2 :: "nat \<Rightarrow> string" where
  "zpad2 n = [digit (n div 10), digit n]"

definition zpad4 :: "nat \<Rightarrow> string" where
  "zpad4 n = [digit (n div 1000), digit (n div 100), digit (n div 10), digit n]"

definition strftime :: "datetime \<Rightarrow> string" where
  \<comment> \<open>\<^verbatim>\<open>strftime("%Y%m%d_%H%M%S")\<close>; a \<^verbatim>\<open>datetime\<close> has a year of at most four digits.\<close>
  "strftime dt =
     zpad4 (year dt) @ zpad2 (month dt) @ zpad2 (day dt) @ ''_'' @
     zpad2 (hour dt) @ zpad2 (minute dt) @ zpad2 (second dt)"

fun path_str :: "path \<Rightarrow> string" where
  "path_str [] = ''.''"
| "path_str [c] = c"
| "path_str (c # cs) = c @ ''/'' @ path_str cs"

fun str_nat :: "nat \<Rightarrow> string" where
  "str_nat n = (if n < 10 then [digit n] else str_nat (n div 10) @ [digit n])"

declare str_nat.simps [simp del]

section \<open>The worksheet\<close>

text \<open>
  A cell address \<^verbatim>\<open>f"A{row}"\<close> is the pair of its column letter and its row number. The
  worksheet holds what the program sets: the title, the cell texts, the frozen pane, the
  column widths, the row heights and the images added, each with its anchor, in the order
  of \<^verbatim>\<open>add_image\<close>. Writing a cell, setting a height and adding an image always succeed.
\<close>

type_synonym cell_addr = "char \<times> nat"

record 'img worksheet =
  title :: string
  cells :: "cell_addr \<rightharpoonup> string"
  freeze_panes :: "cell_addr option"
  column_width :: "char \<rightharpoonup> nat"
  row_height :: "nat \<rightharpoonup> rat"
  images :: "(cell_addr \<times> 'img) list"

definition new_sheet :: "'img worksheet" where
  \<comment> \<open>Lines 78 to 88.\<close>
  "new_sheet =
     \<lparr>title = ''Inventory'',
      cells = [(CHR ''A'', 1) \<mapsto> ''Photo'', (CHR ''B'', 1) \<mapsto> ''Temporary Name''],
      freeze_panes = Some (CHR ''A'', 2),
      column_width = [CHR ''A'' \<mapsto> 18, CHR ''B'' \<mapsto> 40],
      row_height = Map.empty,
      images = []\<rparr>"

text \<open>
  Lines 96 to 107 open, convert, shrink and re-encode one image with the imaging library.
  Their outcome for a path and a thumbnail size is an input of the model: the encoded
  thumbnail, or an exception raised before the worksheet is touched.
\<close>

datatype 'img outcome = Rendered 'img | Failed

definition process_file ::
  "int \<Rightarrow> (path \<Rightarrow> int \<Rightarrow> 'img outcome) \<Rightarrow> path \<Rightarrow> 'img worksheet \<times> nat \<Rightarrow> 'img worksheet \<times> nat"
where
  \<comment> \<open>One pass of the loop body, lines 95 to 121; \<^verbatim>\<open>thumb_size * 0.75\<close> is taken exactly.\<close>
  "process_file thumb_size render fp st =
     (let ws = fst st; row = snd st
      in case render fp thumb_size of
           Rendered png \<Rightarrow>
             (ws\<lparr>row_height := (row_height ws)(row \<mapsto> max 80 (of_int thumb_size * (3 / 4))),
                 images := images ws @ [((CHR ''A'', row), png)],
                 cells := (cells ws)((CHR ''B'', row) \<mapsto> stem fp)\<rparr>,
              row + 1)
         | Failed \<Rightarrow>
             (ws\<lparr>cells := (cells ws)((CHR ''B'', row) \<mapsto> ''[ERROR reading image] '' @ name fp)\<rparr>,
              row + 1))"

fun build_rows ::
  "int \<Rightarrow> (path \<Rightarrow> int \<Rightarrow> 'img outcome) \<Rightarrow> path list \<Rightarrow> 'img worksheet \<times> nat \<Rightarrow> 'img worksheet \<times> nat"
where
  "build_rows thumb_size render [] st = st"
| "build_rows thumb_size render (fp # fps) st =
     build_rows thumb_size render fps (process_file thumb_size render fp st)"

section \<open>The program\<close>

record args =
  input :: path
  output_arg :: path
  thumb_size :: int
  timestamped :: bool
  recursive :: bool

datatype target = Missing | NotADirectory | Directory "node list"

text \<open>
  The environment of one run: whether the two libraries can be imported, what the input
  path names on disk, the outcome of rendering each file, the clock, and whether a path
  exists, can be made a directory and can be written.
\<close>

record 'img env =
  pillow_installed :: bool
  openpyxl_installed :: bool
  input_target :: target
  render :: "path \<Rightarrow> int \<Rightarrow> 'img outcome"
  now :: datetime
  path_exists :: "path \<Rightarrow> bool"
  mkdir_ok :: "path \<Rightarrow> bool"
  save_ok :: "path \<Rightarrow> bool"
  resolve :: "path \<Rightarrow> path"

datatype status = Exit nat | Raised exn

text \<open>
  What a run leaves behind: how it ended, the lines the program printed to standard error
  and to standard output, the directories it made and the files it saved.
\<close>

record 'img result =
  status :: status
  stderr :: "string list"
  stdout :: "string list"
  made_dirs :: "path list"
  saved :: "(path \<times> 'img worksheet) list"

fun exit_code :: "status \<Rightarrow> nat" where
  "exit_code (Exit n) = n"
| "exit_code (Raised e) = 1"

definition stopped :: "status \<Rightarrow> string list \<Rightarrow> 'img result" where
  "stopped st err = \<lparr>status = st, stderr = err, stdout = [], made_dirs = [], saved = []\<rparr>"

definition out_path_of :: "args \<Rightarrow> datetime \<Rightarrow> exn + path" where
  \<comment> \<open>Lines 124 to 127.\<close>
  "out_path_of a dt =
     (if timestamped a
      then with_name (output_arg a) (stem (output_arg a) @ ''_'' @ strftime dt @ suffix (output_arg a))
      else Inr (output_arg a))"

definition write_out ::
  "'img env \<Rightarrow> string list \<Rightarrow> nat \<Rightarrow> 'img worksheet \<Rightarrow> path \<Rightarrow> 'img result"
where
  \<comment> \<open>Lines 129 to 135.\<close>
  "write_out e warn n ws out_path =
     (let dirs = (if \<not> path_exists e (parent out_path) then [parent out_path] else [])
      in if dirs \<noteq> [] \<and> \<not> mkdir_ok e (parent out_path) then stopped (Raised OSError) warn
         else if \<not> save_ok e out_path
         then \<lparr>status = Raised OSError, stderr = warn, stdout = [], made_dirs = dirs, saved = []\<rparr>
         else \<lparr>status = Exit 0, stderr = warn,
               stdout = [''Excel created: '' @ path_str (resolve e out_path),
                         ''Images processed: '' @ str_nat n],
               made_dirs = dirs, saved = [(out_path, ws)]\<rparr>)"

definition main :: "args \<Rightarrow> 'img env \<Rightarrow> 'img result" where
  "main a e =
     (if \<not> pillow_installed e
      then stopped (Raised ImportError)
             [''ERROR: Pillow is not installed. Install with: pip install Pillow'']
      else if \<not> openpyxl_installed e
      then stopped (Raised ImportError)
             [''ERROR: openpyxl is not installed. Install with: pip install openpyxl'']
      else case input_target e of
        Directory cs \<Rightarrow>
          (let files = collect_files (recursive a) (input a) cs;
               warn = (if files = []
                       then [''WARNING: No supported image files found in: '' @ path_str (input a)]
                       else []);
               ws = fst (build_rows (thumb_size a) (render e) files (new_sheet, 2))
           in case out_path_of a (now e) of
                Inl x \<Rightarrow> stopped (Raised x) warn
              | Inr out_path \<Rightarrow> write_out e warn (length files) ws out_path)
      | _ \<Rightarrow>
          stopped (Exit 1)
            [''ERROR: Input folder not found or not a directory: '' @ path_str (input a)])"

section \<open>Reading a saved worksheet\<close>


section \<open>A sample run\<close>

text \<open>
  The folder \<^verbatim>\<open>images\<close> holds \<^verbatim>\<open>a.jpg\<close>, \<^verbatim>\<open>b.png\<close> and \<^verbatim>\<open>notes.txt\<close>; \<^verbatim>\<open>b.png\<close> cannot be
  decoded. The thumbnail of a file is stood for by the file's name.
\<close>

definition sample_args :: args where
  "sample_args =
     \<lparr>input = [''images''], output_arg = [''out'', ''inventory_audit.xlsx''],
      thumb_size = 100, timestamped = True, recursive = False\<rparr>"

definition sample_env :: "string env" where
  "sample_env =
     \<lparr>pillow_installed = True, openpyxl_installed = True,
      input_target = Directory [File ''b.png'', File ''notes.txt'', File ''a.jpg''],
      render = (\<lambda>fp ts. if name fp = ''b.png'' then Failed else Rendered (name fp)),
      now = \<lparr>year = 2026, month = 11, day = 5, hour = 7, minute = 3, second = 59\<rparr>,
      path_exists = (\<lambda>p. p = []),
      mkdir_ok = (\<lambda>p. True),
      save_ok = (\<lambda>p. True),
      resolve = (\<lambda>p. ''work'' # p)\<rparr>"

definition sample_sheet :: "string worksheet" where
  "sample_sheet = snd (hd (saved (main sample_args sample_env)))"

section \<open>The loop over the collected files\<close>

text \<open>
  Each pass writes one cell in column B of the current row and moves to the next row; an
  image and a row height are added only when the file was rendered. Rows above the
  current one are never touched again.
\<close>

lemma process_file_row: "snd (process_file ts rnd fp st) = snd st + 1"
  by (simp add: process_file_def Let_def split: outcome.split)

lemma build_rows_row: "snd (build_rows ts rnd fps st) = snd st + length fps"
  by (induction fps arbitrary: st) (simp_all add: process_file_row)

lemma process_file_cells:
  "cells (fst (process_file ts rnd fp st)) =
     (cells (fst st))((CHR ''B'', snd st) \<mapsto>
        (case rnd fp ts of Rendered png \<Rightarrow> stem fp
                         | Failed \<Rightarrow> ''[ERROR reading image] '' @ name fp))"
  by (simp add: process_file_def Let_def split: outcome.split)



lemma build_rows_cells_other:
  "r < snd st \<or> c \<noteq> CHR ''B'' \<Longrightarrow> cells (fst (build_rows ts rnd fps st)) (c, r) = cells (fst st) (c, r)"
proof (induction fps arbitrary: st)
  case Nil
  then show ?case by simp
next
  case (Cons fp fps)
  from Cons.prems have "r < snd (process_file ts rnd fp st) \<or> c \<noteq> CHR ''B''"
    by (auto simp: process_file_row)
  from Cons.IH [OF this] Cons.prems show ?case
    by (auto simp: process_file_cells)
qed

lemma build_rows_cells:
  "k < length fps \<Longrightarrow>
   cells (fst (build_rows ts rnd fps st)) (CHR ''B'', snd st + k) =
     Some (case rnd (fps ! k) ts of Rendered png \<Rightarrow> stem (fps ! k)
           | Failed \<Rightarrow> ''[ERROR reading image] '' @ name (fps ! k))"
proof (induction fps arbitrary: st k)
  case Nil
  then show ?case by simp
next
  case (Cons fp fps)
  show ?case
  proof (cases k)
    case 0
    show ?thesis unfolding 0
      by (simp add: build_rows_cells_other process_file_row process_file_cells
               split: outcome.split)
  next
    case (Suc j)
    with Cons.prems have "j < length fps" by simp
    from Cons.IH [OF this, of "process_file ts rnd fp st"] show ?thesis
      unfolding Suc by (simp add: process_file_row split: outcome.split)
  qed
qed

lemma process_file_dom:
  "dom (cells (fst (process_file ts rnd fp st))) = insert (CHR ''B'', snd st) (dom (cells (fst st)))"
  unfolding process_file_cells by (simp only: dom_fun_upd option.distinct if_False)

lemma build_rows_dom:
  "dom (cells (fst (build_rows ts rnd fps st))) =
     dom (cells (fst st)) \<union> (\<lambda>k. (CHR ''B'', snd st + k)) ` {..<length fps}"
proof (induction fps arbitrary: st)
  case Nil
  then show ?case by simp
next
  case (Cons fp fps)
  have shift: "(\<lambda>k. (CHR ''B'', snd st + k)) ` {..<Suc (length fps)} =
        insert (CHR ''B'', snd st) ((\<lambda>k. (CHR ''B'', Suc (snd st + k))) ` {..<length fps})"
    by (simp add: lessThan_Suc_eq_insert_0 image_image)
  have "dom (cells (fst (build_rows ts rnd (fp # fps) st))) =
        insert (CHR ''B'', snd st) (dom (cells (fst st))) \<union>
        (\<lambda>k. (CHR ''B'', Suc (snd st + k))) ` {..<length fps}"
    using Cons.IH [of "process_file ts rnd fp st"]
    by (simp only: build_rows.simps process_file_dom process_file_row add_Suc_right add_0_right One_nat_def add_Suc)
  also have "\<dots> = dom (cells (fst st)) \<union> (\<lambda>k. (CHR ''B'', snd st + k)) ` {..<length (fp # fps)}"
    unfolding length_Cons shift by blast
  finally show ?case .
qed





section \<open>The saved worksheet\<close>

lemma main_saved:
  assumes "(p, ws) \<in> set (saved (main a e))" and "input_target e = Directory cs"
  shows "ws = fst (build_rows (thumb_size a) (render e)
                     (collect_files (recursive a) (input a) cs) (new_sheet, 2))"
  using assms
  by (auto simp: main_def write_out_def stopped_def Let_def split: if_splits sum.splits)

lemma new_sheet_dom: "dom (cells (new_sheet :: 'img worksheet)) = {(CHR ''A'', 1), (CHR ''B'', 1)}"
  by (auto simp: new_sheet_def)

lemma sheet_dom:
  "dom (cells (fst (build_rows ts rnd fps (new_sheet, 2)))) =
     {(CHR ''A'', 1), (CHR ''B'', 1)} \<union> (\<lambda>k. (CHR ''B'', 2 + k)) ` {..<length fps}"
  by (simp only: build_rows_dom fst_conv snd_conv new_sheet_dom)

lemma sheet_rows:
  "snd ` dom (cells (fst (build_rows ts rnd fps (new_sheet, 2)))) = {1..1 + length fps}"
proof -
  have "snd ` (\<lambda>k. (CHR ''B'', 2 + k)) ` {..<length fps} = {2..<2 + length fps}"
  proof (intro set_eqI iffI)
    fix x assume "x \<in> snd ` (\<lambda>k. (CHR ''B'', 2 + k)) ` {..<length fps}"
    then show "x \<in> {2..<2 + length fps}" by auto
  next
    fix x assume "x \<in> {2..<2 + length fps}"
    then have "x - 2 \<in> {..<length fps}" and "x = snd (CHR ''B'', 2 + (x - 2))" by auto
    then show "x \<in> snd ` (\<lambda>k. (CHR ''B'', 2 + k)) ` {..<length fps}" by blast
  qed
  then have "snd ` dom (cells (fst (build_rows ts rnd fps (new_sheet, 2)))) =
             {1} \<union> {2..<2 + length fps}"
    unfolding sheet_dom image_Un by simp
  also have "\<dots> = {1..1 + length fps}" by auto
  finally show ?thesis .
qed

section \<open>Rows of the saved document\<close>

text \<open>
  Claim C1. Whatever the input directory holds and however each file's rendering ends, a
  saved document has the header row and exactly one data row for each collected file: the
  cells are A1, B1 and the cell of column B in rows 2, 3, ... up to one row per file, the
  \<open>k\<close>-th collected file (counting from 0) owns row \<open>2 + k\<close>, so the rows follow the
  order of collection, and the rows that hold a cell number 1 + the number of collected
  files. Each pass of the loop, rendered or failed, moves the row index on by exactly one.
\<close>

theorem C1_one_row_per_collected_file:
  assumes "input_target e = Directory cs" and "(p, ws) \<in> set (saved (main a e))"
  shows "(let files = collect_files (recursive a) (input a) cs in
            dom (cells ws) =
              {(CHR ''A'', 1), (CHR ''B'', 1)} \<union> (\<lambda>k. (CHR ''B'', 2 + k)) ` {..<length files}
          \<and> snd ` dom (cells ws) = {1..1 + length files}
          \<and> card (snd ` dom (cells ws)) = 1 + length files
          \<and> (\<forall>k<length files.
                 cells ws (CHR ''B'', 2 + k) =
                   Some (case render e (files ! k) (thumb_size a) of
                           Rendered png \<Rightarrow> stem (files ! k)
                         | Failed \<Rightarrow> ''[ERROR reading image] '' @ name (files ! k)))
          \<and> snd (build_rows (thumb_size a) (render e) files (new_sheet, 2)) = 2 + length files)
       \<and> snd (process_file ts rnd fp st) = snd st + 1"
proof -
  define files where "files = collect_files (recursive a) (input a) cs"
  have ws: "ws = fst (build_rows (thumb_size a) (render e) files (new_sheet, 2))"
    unfolding files_def using assms(2,1) by (rule main_saved)
  have d: "dom (cells ws) =
             {(CHR ''A'', 1), (CHR ''B'', 1)} \<union> (\<lambda>k. (CHR ''B'', 2 + k)) ` {..<length files}"
    unfolding ws by (rule sheet_dom)
  have r: "snd ` dom (cells ws) = {1..1 + length files}"
    unfolding ws by (rule sheet_rows)
  have c: "card (snd ` dom (cells ws)) = 1 + length files"
    unfolding r by simp
  have n: "\<forall>k<length files.
             cells ws (CHR ''B'', 2 + k) =
               Some (case render e (files ! k) (thumb_size a) of
                       Rendered png \<Rightarrow> stem (files ! k)
                     | Failed \<Rightarrow> ''[ERROR reading image] '' @ name (files ! k))"
    unfolding ws
    using build_rows_cells [of _ files "thumb_size a" "render e" "(new_sheet, 2)"] by simp
  have i: "snd (build_rows (thumb_size a) (render e) files (new_sheet, 2)) = 2 + length files"
    by (simp add: build_rows_row)
  have s: "snd (process_file ts rnd fp st) = snd st + 1"
    by (rule process_file_row)
  from d r c n i s show ?thesis
    unfolding Let_def files_def [symmetric] by blast
qed

lemma sample_run_saved:
  "(fst (hd (saved (main sample_args sample_env))), sample_sheet)
     \<in> set (saved (main sample_args sample_env))"
proof -
  have "length (saved (main sample_args sample_env)) = 1" by code_simp
  then have "hd (saved (main sample_args sample_env)) \<in> set (saved (main sample_args sample_env))"
    by (cases "saved (main sample_args sample_env)") simp_all
  then show ?thesis by (simp add: sample_sheet_def)
qed

lemma sample_run_files:
  "collect_files (recursive sample_args) (input sample_args)
     [File ''b.png'', File ''notes.txt'', File ''a.jpg''] =
   [[''images'', ''a.jpg''], [''images'', ''b.png'']]"
  by code_simp

lemma sample_run_target:
  "input_target sample_env = Directory [File ''b.png'', File ''notes.txt'', File ''a.jpg'']"
  by (simp add: sample_env_def)

theorem C1_witness:
  "card (snd ` dom (cells sample_sheet)) = 3
   \<and> cells sample_sheet (CHR ''B'', 2) = Some ''a''
   \<and> cells sample_sheet (CHR ''B'', 3) = Some ''[ERROR reading image] b.png''"
proof -
  let ?files = "[[''images'', ''a.jpg''], [''images'', ''b.png'']]"
  note c1 = C1_one_row_per_collected_file [OF sample_run_target sample_run_saved,
      where ts = 100 and rnd = "render sample_env" and fp = "[]" and st = "(new_sheet, 2)",
      unfolded sample_run_files Let_def]
  from c1 have "card (snd ` dom (cells sample_sheet)) = 1 + length ?files"
    by blast
  then have rows: "card (snd ` dom (cells sample_sheet)) = 3"
    by simp
  from c1 have each: "\<forall>k<length ?files.
      cells sample_sheet (CHR ''B'', 2 + k) =
        Some (case render sample_env (?files ! k) (thumb_size sample_args) of
                Rendered png \<Rightarrow> stem (?files ! k)
              | Failed \<Rightarrow> ''[ERROR reading image] '' @ name (?files ! k))"
    by blast
  from each [rule_format, of 0] have first: "cells sample_sheet (CHR ''B'', 2) = Some ''a''"
    by (simp add: sample_env_def name_def stem_def rfind_def)
  from each [rule_format, of 1]
  have second: "cells sample_sheet (CHR ''B'', 3) = Some ''[ERROR reading image] b.png''"
    by (simp add: sample_env_def name_def stem_def rfind_def)
  from rows first second show ?thesis by simp
qed






lemma main_render_paths:
  "map fst (saved (main a (e\<lparr>render := r\<rparr>))) = map fst (saved (main a e))"
  by (simp add: main_def write_out_def stopped_def Let_def split: target.split sum.split)

section \<open>A file that cannot be rendered\<close>




section \<open>Row heights\<close>




section \<open>An input path that is no directory\<close>

text \<open>
  Claim C6. When the input path does not exist or is not a directory, the run prints to
  standard error, ends with a non-zero exit status, makes no directory and saves no file.
  With both libraries installed the status is exactly 1 and the line printed names the
  input path.
\<close>

theorem C6_bad_input_path_stops_before_output:
  assumes "input_target e = Missing \<or> input_target e = NotADirectory"
  shows "stderr (main a e) \<noteq> []
       \<and> exit_code (status (main a e)) \<noteq> 0
       \<and> saved (main a e) = [] \<and> made_dirs (main a e) = []
       \<and> (pillow_installed e \<and> openpyxl_installed e \<longrightarrow>
            status (main a e) = Exit 1
          \<and> stderr (main a e) =
              [''ERROR: Input folder not found or not a directory: '' @ path_str (input a)])"
  using assms by (auto simp: main_def stopped_def)

theorem C6_witness:
  "status (main sample_args (sample_env\<lparr>input_target := Missing\<rparr>)) = Exit 1
   \<and> stderr (main sample_args (sample_env\<lparr>input_target := Missing\<rparr>)) =
       [''ERROR: Input folder not found or not a directory: images'']
   \<and> saved (main sample_args (sample_env\<lparr>input_target := Missing\<rparr>)) = []"
proof -
  have "input_target (sample_env\<lparr>input_target := Missing\<rparr>) = Missing
        \<or> input_target (sample_env\<lparr>input_target := Missing\<rparr>) = NotADirectory"
    by simp
  from C6_bad_input_path_stops_before_output [OF this, of sample_args]
  show ?thesis by (simp add: sample_env_def sample_args_def)
qed

section \<open>No matching files\<close>

text \<open>
  Claim C9. When no file of the input directory matches, and the output path can be
  written, the run prints one line starting with \<^verbatim>\<open>WARNING:\<close> to standard error, still
  saves a document, whose only cells are the two header cells of row 1 and which holds no
  image, and exits with status 0.
\<close>

theorem C9_no_files_header_only:
  assumes "pillow_installed e" and "openpyxl_installed e"
    and "input_target e = Directory cs"
    and "collect_files (recursive a) (input a) cs = []"
    and "out_path_of a (now e) = Inr p"
    and "path_exists e (parent p) \<or> mkdir_ok e (parent p)"
    and "save_ok e p"
  shows "status (main a e) = Exit 0
       \<and> stderr (main a e) =
           [''WARNING: No supported image files found in: '' @ path_str (input a)]
       \<and> saved (main a e) = [(p, new_sheet)]
       \<and> dom (cells (snd (hd (saved (main a e))))) = {(CHR ''A'', 1), (CHR ''B'', 1)}
       \<and> cells (snd (hd (saved (main a e)))) (CHR ''A'', 1) = Some ''Photo''
       \<and> cells (snd (hd (saved (main a e)))) (CHR ''B'', 1) = Some ''Temporary Name''
       \<and> images (snd (hd (saved (main a e)))) = []"
proof -
  have m: "main a e =
      \<lparr>status = Exit 0,
       stderr = [''WARNING: No supported image files found in: '' @ path_str (input a)],
       stdout = [''Excel created: '' @ path_str (resolve e p), ''Images processed: '' @ str_nat 0],
       made_dirs = (if \<not> path_exists e (parent p) then [parent p] else []),
       saved = [(p, new_sheet)]\<rparr>"
    using assms by (auto simp: main_def write_out_def Let_def)
  show ?thesis unfolding m by (simp add: new_sheet_dom) (simp add: new_sheet_def)
qed

theorem C9_witness:
  "status (main (sample_args\<lparr>timestamped := False\<rparr>)
             (sample_env\<lparr>input_target := Directory [File ''notes.txt'']\<rparr>)) = Exit 0
   \<and> saved (main (sample_args\<lparr>timestamped := False\<rparr>)
             (sample_env\<lparr>input_target := Directory [File ''notes.txt'']\<rparr>)) =
       [([''out'', ''inventory_audit.xlsx''], new_sheet)]
   \<and> stderr (main (sample_args\<lparr>timestamped := False\<rparr>)
             (sample_env\<lparr>input_target := Directory [File ''notes.txt'']\<rparr>)) =
       [''WARNING: No supported image files found in: images'']"
proof -
  let ?a = "sample_args\<lparr>timestamped := False\<rparr>"
  let ?e = "sample_env\<lparr>input_target := Directory [File ''notes.txt'']\<rparr>"
  have h1: "pillow_installed ?e" and h2: "openpyxl_installed ?e"
    and h3: "input_target ?e = Directory [File ''notes.txt'']"
    by (simp_all add: sample_env_def)
  have h4: "collect_files (recursive ?a) (input ?a) [File ''notes.txt''] = []"
    by code_simp
  have h5: "out_path_of ?a (now ?e) = Inr [''out'', ''inventory_audit.xlsx'']"
    by (simp add: out_path_of_def sample_args_def)
  have h6: "path_exists ?e (parent [''out'', ''inventory_audit.xlsx''])
          \<or> mkdir_ok ?e (parent [''out'', ''inventory_audit.xlsx''])"
    and h7: "save_ok ?e [''out'', ''inventory_audit.xlsx'']"
    by (simp_all add: sample_env_def)
  from C9_no_files_header_only [OF h1 h2 h3 h4 h5 h6 h7]
  show ?thesis by (simp add: sample_args_def)
qed

section \<open>The time-stamped output path\<close>















end
